theory Spec2Isabelle
  imports Complex_Main "HOL-Library.Sublist"
begin

section \<open>Configuration\<close>

text \<open>
  The module-level safety settings of \<^verbatim>\<open>ib_auto_trader.py\<close> (the same values stand in
  \<^verbatim>\<open>ib_autotrade_realtest.py\<close>).
\<close>

definition PAPER_TRADING_ONLY :: bool where
  "PAPER_TRADING_ONLY = True"

definition MAX_ORDER_SIZE :: int where
  "MAX_ORDER_SIZE = 1000"

section \<open>Python and pandas values\<close>

text \<open>
  A cell of a row yielded by \<^verbatim>\<open>df.iterrows()\<close>: a missing value (float NaN), a string,
  an integer, a finite float (modelled by its real value) or a boolean. What Python
  itself does to the text of a string (\<^verbatim>\<open>upper\<close>, \<^verbatim>\<open>int\<close>, \<^verbatim>\<open>float\<close>) is not part
  of the program and is taken from the environment.
\<close>

datatype cell = CNaN | CStr string | CInt int | CFlt real | CBool bool

datatype exn =
    KeyError string
  | AttributeError
  | ValueError
  | TypeError
  | FileNotFoundError
  | OtherError string

type_synonym row = "string \<rightharpoonup> cell"

text \<open>
  A frame as the program uses it: the column names and, in order, the pairs of index label
  and row that \<^verbatim>\<open>df.iterrows()\<close> yields. \<^verbatim>\<open>pd.read_csv\<close> labels the rows 0, 1, 2, ...
  unless the data rows have one field more than the header: then the first field of every
  row is its label.
\<close>

record dataframe =
  df_columns :: "string list"
  df_rows :: "(cell \<times> row) list"

definition df_empty :: "dataframe \<Rightarrow> bool" where
  "df_empty df = (df_columns df = [] \<or> df_rows df = [])"

definition iterrows :: "dataframe \<Rightarrow> (cell \<times> row) list" where
  "iterrows df = df_rows df"

text \<open>
  \<^verbatim>\<open>idx + 1\<close> on an index label: a number is incremented (NaN stays NaN, a boolean counts
  as 0 or 1), a string raises TypeError.
\<close>

definition index_plus_one :: "cell \<Rightarrow> exn + cell" where
  "index_plus_one idx =
     (case idx of
        CNaN \<Rightarrow> Inr CNaN
      | CStr s \<Rightarrow> Inl TypeError
      | CInt i \<Rightarrow> Inr (CInt (i + 1))
      | CFlt x \<Rightarrow> Inr (CFlt (x + 1))
      | CBool b \<Rightarrow> Inr (CInt (if b then 2 else 1)))"

text \<open>\<^verbatim>\<open>row[key]\<close> raises KeyError on a missing column; \<^verbatim>\<open>row.get(key, default)\<close> does not.\<close>

definition getitem :: "row \<Rightarrow> string \<Rightarrow> exn + cell" where
  "getitem r k = (case r k of None \<Rightarrow> Inl (KeyError k) | Some v \<Rightarrow> Inr v)"

definition row_get :: "row \<Rightarrow> string \<Rightarrow> cell \<Rightarrow> cell" where
  "row_get r k d = (case r k of None \<Rightarrow> d | Some v \<Rightarrow> v)"

text \<open>
  \<^verbatim>\<open>pd.notna(row.get(key))\<close>: the lookup yields Python's None for a missing column, and
  \<^verbatim>\<open>pd.notna\<close> is false on None and on NaN.
\<close>

definition notna :: "cell option \<Rightarrow> bool" where
  "notna c = (case c of None \<Rightarrow> False | Some CNaN \<Rightarrow> False | Some _ \<Rightarrow> True)"

text \<open>
  \<^verbatim>\<open>acc.lower()\<close> on an account identifier (the gateway issues identifiers made of
  ASCII letters and digits).
\<close>

definition lower_char :: "char \<Rightarrow> char" where
  "lower_char c = (let n = (of_char c :: nat) in if 65 \<le> n \<and> n \<le> 90 then char_of (n + 32) else c)"

definition str_lower :: "string \<Rightarrow> string" where
  "str_lower s = map lower_char s"

text \<open>
  Method calls on a cell: only a string has \<^verbatim>\<open>.upper()\<close> and \<^verbatim>\<open>.split()\<close>. \<open>up\<close> is
  Python's \<^verbatim>\<open>str.upper\<close>.
\<close>

definition cell_upper :: "(string \<Rightarrow> string) \<Rightarrow> cell \<Rightarrow> exn + string" where
  "cell_upper up c = (case c of CStr s \<Rightarrow> Inr (up s) | _ \<Rightarrow> Inl AttributeError)"

definition cell_split_first :: "cell \<Rightarrow> exn + string" where
  "cell_split_first c =
     (case c of CStr s \<Rightarrow> Inr (takeWhile (\<lambda>ch. ch \<noteq> CHR ''/'') s) | _ \<Rightarrow> Inl AttributeError)"

subsection \<open>\<^verbatim>\<open>int(...)\<close> and \<^verbatim>\<open>float(...)\<close>\<close>

text \<open>
  \<^verbatim>\<open>int(x)\<close>: an integer is itself, a float is truncated toward zero, NaN raises
  ValueError. Python's parser of an integer written as a string is the parameter \<open>istr\<close>
  (None where it raises ValueError).
\<close>

definition py_int :: "(string \<Rightarrow> int option) \<Rightarrow> cell \<Rightarrow> exn + int" where
  "py_int istr c =
     (case c of
        CNaN \<Rightarrow> Inl ValueError
      | CStr s \<Rightarrow> (case istr s of None \<Rightarrow> Inl ValueError | Some i \<Rightarrow> Inr i)
      | CInt i \<Rightarrow> Inr i
      | CFlt x \<Rightarrow> Inr (if 0 \<le> x then \<lfloor>x\<rfloor> else \<lceil>x\<rceil>)
      | CBool b \<Rightarrow> Inr (if b then 1 else 0))"

text \<open>
  \<^verbatim>\<open>float(x)\<close>. Python's parser of a float written as a string is not part of the
  program: it is the parameter \<open>fstr\<close> (None where it raises ValueError). Both call sites
  are guarded by \<^verbatim>\<open>pd.notna\<close>, so the NaN case is never reached.
\<close>

definition py_float :: "(string \<Rightarrow> real option) \<Rightarrow> cell \<Rightarrow> exn + real" where
  "py_float fstr c =
     (case c of
        CNaN \<Rightarrow> Inl ValueError
      | CStr s \<Rightarrow> (case fstr s of None \<Rightarrow> Inl ValueError | Some x \<Rightarrow> Inr x)
      | CInt i \<Rightarrow> Inr (of_int i)
      | CFlt x \<Rightarrow> Inr x
      | CBool b \<Rightarrow> Inr (if b then 1 else 0))"

section \<open>Gateway objects and the log\<close>

text \<open>\<^verbatim>\<open>Stock(symbol=..., exchange=..., currency=...)\<close>: the fields are stored as given.\<close>

record contract =
  symbol :: cell
  exchange :: string
  currency :: cell

text \<open>
  \<^verbatim>\<open>Order()\<close> with the attributes \<^verbatim>\<open>create_order\<close> assigns. A price or account that
  is never assigned is None here (the gateway library's unset default).
\<close>

record order =
  action :: string
  totalQuantity :: int
  orderType :: string
  lmtPrice :: "real option"
  auxPrice :: "real option"
  tif :: cell
  account :: "cell option"

record trade =
  trade_contract :: contract
  trade_order :: order
  orderId :: int
  status :: string

text \<open>\<^verbatim>\<open>ib.positions()\<close> entries: \<^verbatim>\<open>pos.contract.symbol\<close>, \<^verbatim>\<open>pos.position\<close>, \<^verbatim>\<open>pos.avgCost\<close>.\<close>

record position_rec =
  pos_symbol :: string
  position :: real
  avgCost :: real

record account_value =
  tag :: string
  val :: string
  av_currency :: string

text \<open>
  A log record is its level and its message; a message is the format string of the
  source (of \<^verbatim>\<open>ib_auto_trader.py\<close>, without the leading symbol or line break; the
  other file words some of them differently) with the values it interpolates. The
  rendered text is not modelled.
\<close>

datatype level = INFO | WARNING | ERROR

datatype arg =
    AStr string
  | AInt int
  | ANat nat
  | AReal real
  | ACell cell
  | AExn exn
  | AStrs "string list"
  | AOptReal "real option"

datatype msg = Msg string "arg list"

abbreviation "Connecting \<equiv> Msg ''Connecting to IB at {self.host}:{self.port}...'' []"

abbreviation "Connected \<equiv> Msg ''Successfully connected to Interactive Brokers'' []"

abbreviation "ConnectedAccounts accounts \<equiv> Msg ''Connected accounts: {accounts}'' [AStrs accounts]"

abbreviation "MayNotBePaper \<equiv> Msg ''WARNING: This may not be a paper trading account!'' []"

abbreviation "FailedToConnect e \<equiv> Msg ''Failed to connect to IB: {e}'' [AExn e]"

abbreviation "MakeSureRunning \<equiv> Msg ''Make sure TWS or IB Gateway is running and API connections are enabled'' []"

abbreviation "ReadingOrders f \<equiv> Msg ''Reading orders from CSV: {csv_file}'' [AStr f]"

abbreviation "FoundOrders n \<equiv> Msg ''Found {len(df)} orders in CSV'' [ANat n]"

abbreviation "Columns cs \<equiv> Msg ''Columns: {list(df.columns)}'' [AStrs cs]"

abbreviation "CsvNotFound f \<equiv> Msg ''CSV file not found: {csv_file}'' [AStr f]"

abbreviation "ErrorReadingCsv e \<equiv> Msg ''Error reading CSV: {e}'' [AExn e]"

abbreviation "ErrorCreatingContract c e \<equiv> Msg ''Error creating contract for {row.get('Symbol', 'UNKNOWN')}: {e}'' [ACell c, AExn e]"

abbreviation "OrderSizeExceeds q m \<equiv> Msg ''Order size {quantity} exceeds MAX_ORDER_SIZE {MAX_ORDER_SIZE}'' [AInt q, AInt m]"

abbreviation "ErrorCreatingOrder e \<equiv> Msg ''Error creating order: {e}'' [AExn e]"

abbreviation "Separator n \<equiv> Msg ''{'='*n}'' [ANat n]"

abbreviation "PlacingOrder a \<equiv> Msg ''Placing {order.action} order:'' [AStr a]"

abbreviation "SymbolLine c \<equiv> Msg ''  Symbol: {symbol}'' [ACell c]"

abbreviation "QuantityLine q \<equiv> Msg ''  Quantity: {order.totalQuantity}'' [AInt q]"

abbreviation "OrderTypeLine t \<equiv> Msg ''  Order Type: {order.orderType}'' [AStr t]"

abbreviation "LimitPriceLine x \<equiv> Msg ''  Limit Price: ${order.lmtPrice}'' [AOptReal x]"

abbreviation "OrderPlaced i \<equiv> Msg ''Order placed successfully - Order ID: {trade.order.orderId}'' [AInt i]"

abbreviation "StatusLine t \<equiv> Msg ''  Status: {trade.orderStatus.status}'' [AStr t]"

abbreviation "ErrorPlacingOrder c e \<equiv> Msg ''Error placing order for {symbol}: {e}'' [ACell c, AExn e]"

abbreviation "NoOrders \<equiv> Msg ''No orders to process'' []"

abbreviation "ProcessingOrder i n \<equiv> Msg ''Processing order {idx + 1}/{len(df)}...'' [ACell i, ANat n]"

abbreviation "Completed k n \<equiv> Msg ''Completed processing {len(trades)}/{len(df)} orders'' [ANat k, ANat n]"

abbreviation "FetchingPositions \<equiv> Msg ''Fetching current positions...'' []"

abbreviation "NoOpenPositions \<equiv> Msg ''No open positions found'' []"

abbreviation "PositionsHeader \<equiv> Msg ''Symbol Quantity Avg Cost Market Value Unrealized P&L'' []"

abbreviation "PositionLine y p c v u \<equiv> Msg ''{pos.contract.symbol} {pos.position} ${pos.avgCost} ${pos.position * pos.avgCost} ${pos.position * (pos.avgCost - pos.avgCost)}'' [AStr y, AReal p, AReal c, AReal v, AReal u]"

abbreviation "ErrorFetchingPositions e \<equiv> Msg ''Error fetching positions: {e}'' [AExn e]"

abbreviation "FetchingAccountSummary \<equiv> Msg ''Fetching account summary...'' []"

abbreviation "AccountSummaryHeader \<equiv> Msg ''Account Summary:'' []"

abbreviation "MetricLine t v c \<equiv> Msg ''  {item.tag}: {item.value} {item.currency}'' [AStr t, AStr v, AStr c]"

abbreviation "ErrorFetchingAccountSummary e \<equiv> Msg ''Error fetching account summary: {e}'' [AExn e]"

abbreviation "BeforeTrading \<equiv> Msg ''--- BEFORE TRADING ---'' []"

abbreviation "ProcessingOrders \<equiv> Msg ''--- PROCESSING ORDERS ---'' []"

abbreviation "WaitingForOrders \<equiv> Msg ''Waiting for orders to be processed...'' []"

abbreviation "AfterTrading \<equiv> Msg ''--- AFTER TRADING ---'' []"

abbreviation "SessionSummaryHeader \<equiv> Msg ''TRADING SESSION SUMMARY'' []"

abbreviation "OrdersProcessed n \<equiv> Msg ''Orders processed: {len(trades)}'' [ANat n]"

abbreviation "LogFileLine \<equiv> Msg ''Log file: {LOG_FILE}'' []"

abbreviation "ErrorDuringTrading e \<equiv> Msg ''Error during trading: {e}'' [AExn e]"

abbreviation "ShuttingDown \<equiv> Msg ''Shutting down...'' []"

abbreviation "Disconnected \<equiv> Msg ''Disconnected from IB'' []"

abbreviation "ShutdownComplete \<equiv> Msg ''System shutdown complete'' []"

type_synonym log = "(level \<times> msg) list"

text \<open>
  The external collaborators. A placement call is the pair handed to
  \<^verbatim>\<open>ib.placeOrder\<close>; the gateway's answer may depend on every call it has received so
  far, and is an exception or a trade. \<open>upper_str\<close>, \<open>int_str\<close> and \<open>float_str\<close> are
  Python's \<^verbatim>\<open>str.upper\<close>, \<^verbatim>\<open>int\<close> and \<^verbatim>\<open>float\<close> on a string (None where the
  conversion raises ValueError), \<open>read_csv\<close> is \<^verbatim>\<open>pd.read_csv\<close>.
\<close>

type_synonym call = "contract \<times> order"

record env =
  upper_str :: "string \<Rightarrow> string"
  int_str :: "string \<Rightarrow> int option"
  float_str :: "string \<Rightarrow> real option"
  read_csv :: "string \<Rightarrow> exn + dataframe"
  placeOrder :: "call list \<Rightarrow> call \<Rightarrow> exn + trade"
  positions :: "call list \<Rightarrow> exn + position_rec list"
  accountSummary :: "call list \<Rightarrow> exn + account_value list"

section \<open>Exceptions inside a \<^verbatim>\<open>try\<close> block\<close>

text \<open>A raised exception is \<open>Inl\<close>; the rest of the block is skipped.\<close>

definition and_then :: "exn + 'a \<Rightarrow> ('a \<Rightarrow> exn + 'b) \<Rightarrow> exn + 'b" where
  "and_then m f = (case m of Inl e \<Rightarrow> Inl e | Inr x \<Rightarrow> f x)"

section \<open>IBConnectionManager.connect\<close>

text \<open>
  \<open>ib_connect\<close> is the outcome of \<^verbatim>\<open>self.ib.connect(...)\<close> (None: no exception),
  \<open>accounts\<close> the list \<^verbatim>\<open>self.ib.managedAccounts()\<close> returns.
\<close>

definition looks_paper :: "string \<Rightarrow> bool" where
  "looks_paper acc =
     (sublist ''paper'' (str_lower acc) \<or> sublist ''df'' (str_lower acc) \<or> sublist ''du'' (str_lower acc))"

definition connect :: "exn option \<Rightarrow> string list \<Rightarrow> bool \<times> log" where
  "connect ib_connect accounts =
     (case ib_connect of
        Some e \<Rightarrow> (False, [(INFO, Connecting), (ERROR, FailedToConnect e), (ERROR, MakeSureRunning)])
      | None \<Rightarrow>
          (True,
           [(INFO, Connecting), (INFO, Connected)] @
           (if PAPER_TRADING_ONLY
            then (INFO, ConnectedAccounts accounts) #
                 (if accounts \<noteq> [] \<and> \<not> list_ex looks_paper accounts
                  then [(WARNING, MayNotBePaper)] else [])
            else [])))"

section \<open>OrderProcessor\<close>

definition read_orders_from_csv :: "env \<Rightarrow> string \<Rightarrow> dataframe option \<times> log" where
  "read_orders_from_csv w csv_file =
     (case read_csv w csv_file of
        Inr df \<Rightarrow>
          (Some df,
           [(INFO, ReadingOrders csv_file), (INFO, FoundOrders (length (df_rows df))),
            (INFO, Columns (df_columns df))])
      | Inl FileNotFoundError \<Rightarrow> (None, [(INFO, ReadingOrders csv_file), (ERROR, CsvNotFound csv_file)])
      | Inl e \<Rightarrow> (None, [(INFO, ReadingOrders csv_file), (ERROR, ErrorReadingCsv e)]))"

definition create_contract_body :: "row \<Rightarrow> exn + contract" where
  "create_contract_body r =
     and_then (getitem r ''Symbol'') (\<lambda>symb.
     and_then (if notna (r ''Exchange'')
               then and_then (getitem r ''Exchange'') cell_split_first
               else Inr ''SMART'') (\<lambda>ex.
     Inr \<lparr>symbol = symb, exchange = ex, currency = row_get r ''Currency'' (CStr ''USD'')\<rparr>))"

definition create_contract :: "row \<Rightarrow> contract option \<times> log" where
  "create_contract r =
     (case create_contract_body r of
        Inr c \<Rightarrow> (Some c, [])
      | Inl e \<Rightarrow> (None, [(ERROR, ErrorCreatingContract (row_get r ''Symbol'' (CStr ''UNKNOWN'')) e)]))"

text \<open>
  The two optional prices of \<^verbatim>\<open>create_order\<close>: the price is read and converted only
  when the order type asks for it and the cell is present and not NaN.
\<close>

definition optional_price :: "env \<Rightarrow> row \<Rightarrow> bool \<Rightarrow> string \<Rightarrow> exn + real option" where
  "optional_price w r applies key =
     (if applies \<and> notna (r key)
      then and_then (getitem r key) (\<lambda>c.
           and_then (py_float (float_str w) c) (\<lambda>x. Inr (Some x)))
      else Inr None)"

text \<open>The part of \<^verbatim>\<open>create_order\<close> after the size check: the order is filled in.\<close>

definition build_order :: "env \<Rightarrow> row \<Rightarrow> string \<Rightarrow> int \<Rightarrow> string \<Rightarrow> exn + order" where
  "build_order w r act quantity order_type =
     and_then (optional_price w r (order_type = ''LMT'') ''LmtPrice'') (\<lambda>lmt.
     and_then (optional_price w r (order_type \<in> set [''STP'', ''STP LMT'']) ''AuxPrice'') (\<lambda>aux.
     Inr \<lparr>action = act, totalQuantity = quantity, orderType = order_type,
          lmtPrice = lmt, auxPrice = aux,
          tif = row_get r ''TimeInForce'' (CStr ''DAY''),
          account = (if notna (r ''Account'') then r ''Account'' else None)\<rparr>))"

text \<open>
  The \<^verbatim>\<open>try\<close> block of \<^verbatim>\<open>create_order\<close>: it raises, or returns None after the
  size warning, or returns the order.
\<close>

definition create_order_body :: "env \<Rightarrow> row \<Rightarrow> exn + (order option \<times> log)" where
  "create_order_body w r =
     and_then (getitem r ''Action'') (\<lambda>a.
     and_then (cell_upper (upper_str w) a) (\<lambda>act.
     and_then (getitem r ''Quantity'') (\<lambda>q.
     and_then (py_int (int_str w) q) (\<lambda>quantity.
     and_then (cell_upper (upper_str w) (row_get r ''OrderType'' (CStr ''MKT''))) (\<lambda>order_type.
     if quantity > MAX_ORDER_SIZE
     then Inr (None, [(WARNING, OrderSizeExceeds quantity MAX_ORDER_SIZE)])
     else and_then (build_order w r act quantity order_type) (\<lambda>ord. Inr (Some ord, [])))))))"

definition create_order :: "env \<Rightarrow> row \<Rightarrow> order option \<times> log" where
  "create_order w r =
     (case create_order_body w r of
        Inr res \<Rightarrow> res
      | Inl e \<Rightarrow> (None, [(ERROR, ErrorCreatingOrder e)]))"

text \<open>
  \<^verbatim>\<open>place_order\<close>: the call is handed to the gateway (and so joins the calls it has
  received) whether the gateway raises or answers; the pause after it is not modelled.
\<close>

definition place_order ::
  "env \<Rightarrow> call list \<Rightarrow> contract \<Rightarrow> order \<Rightarrow> cell \<Rightarrow> trade option \<times> call list \<times> log" where
  "place_order w cs c ord symb =
     (let announce =
            [(INFO, Separator 60), (INFO, PlacingOrder (action ord)), (INFO, SymbolLine symb),
             (INFO, QuantityLine (totalQuantity ord)), (INFO, OrderTypeLine (orderType ord))] @
            (if orderType ord = ''LMT'' then [(INFO, LimitPriceLine (lmtPrice ord))] else []) @
            [(INFO, Separator 60)]
      in case placeOrder w cs (c, ord) of
           Inr t \<Rightarrow>
             (Some t, cs @ [(c, ord)],
              announce @ [(INFO, OrderPlaced (orderId t)), (INFO, StatusLine (status t))])
         | Inl e \<Rightarrow> (None, cs @ [(c, ord)], announce @ [(ERROR, ErrorPlacingOrder symb e)]))"

text \<open>
  The state of the loop of \<^verbatim>\<open>process_all_orders\<close>: the list \<^verbatim>\<open>trades\<close>, the calls the
  gateway has received and the log.
\<close>

record session =
  trades :: "trade list"
  calls :: "call list"
  slog :: log

text \<open>
  One iteration. The log line with \<^verbatim>\<open>idx + 1\<close> and \<^verbatim>\<open>row['Symbol']\<close> in the call of
  \<^verbatim>\<open>place_order\<close> stand outside every \<^verbatim>\<open>try\<close> block: an exception there leaves the
  loop. The result is then the exception with the state reached so far.
\<close>

definition process_row ::
  "env \<Rightarrow> nat \<Rightarrow> cell \<times> row \<Rightarrow> session \<Rightarrow> exn \<times> session + session" where
  "process_row w n ir s =
     (case ir of (idx, r) \<Rightarrow>
        case index_plus_one idx of
          Inl e \<Rightarrow> Inl (e, s)
        | Inr k \<Rightarrow>
            let l0 = slog s @ [(INFO, ProcessingOrder k n)] in
            case create_contract r of
              (None, l1) \<Rightarrow> Inr (s\<lparr>slog := l0 @ l1\<rparr>)
            | (Some c, l1) \<Rightarrow>
                (case create_order w r of
                   (None, l2) \<Rightarrow> Inr (s\<lparr>slog := l0 @ l1 @ l2\<rparr>)
                 | (Some ord, l2) \<Rightarrow>
                     (case getitem r ''Symbol'' of
                        Inl e \<Rightarrow> Inl (e, s\<lparr>slog := l0 @ l1 @ l2\<rparr>)
                      | Inr symb \<Rightarrow>
                          (case place_order w (calls s) c ord symb of
                             (t, cs, l3) \<Rightarrow>
                               Inr \<lparr>trades = (case t of None \<Rightarrow> trades s | Some tr \<Rightarrow> trades s @ [tr]),
                                    calls = cs, slog = l0 @ l1 @ l2 @ l3\<rparr>))))"

fun process_rows ::
  "env \<Rightarrow> nat \<Rightarrow> (cell \<times> row) list \<Rightarrow> session \<Rightarrow> exn \<times> session + session" where
  "process_rows w n [] s = Inr s"
| "process_rows w n (ir # irs) s =
     (case process_row w n ir s of
        Inl x \<Rightarrow> Inl x
      | Inr s' \<Rightarrow> process_rows w n irs s')"

text \<open>
  The part of \<^verbatim>\<open>process_all_orders\<close> after the file is read; the loop of
  \<^verbatim>\<open>AutoTradingSystem.run\<close> in \<^verbatim>\<open>ib_autotrade_realtest.py\<close> is the same text, run on the
  frame read for the preview. \<open>cs\<close> are the calls the gateway received before, \<open>l\<close> the
  log so far.
\<close>

definition process_frame ::
  "env \<Rightarrow> dataframe option \<Rightarrow> call list \<Rightarrow> log \<Rightarrow> exn \<times> session + session" where
  "process_frame w df cs l =
     (case df of
        None \<Rightarrow> Inr \<lparr>trades = [], calls = cs, slog = l @ [(WARNING, NoOrders)]\<rparr>
      | Some d \<Rightarrow>
          if df_empty d then Inr \<lparr>trades = [], calls = cs, slog = l @ [(WARNING, NoOrders)]\<rparr>
          else
            (case process_rows w (length (df_rows d)) (iterrows d)
                    \<lparr>trades = [], calls = cs, slog = l\<rparr> of
               Inl x \<Rightarrow> Inl x
             | Inr s \<Rightarrow>
                 Inr (s\<lparr>slog := slog s @ [(INFO, Completed (length (trades s)) (length (df_rows d)))]\<rparr>)))"

definition process_all_orders :: "env \<Rightarrow> string \<Rightarrow> call list \<Rightarrow> exn \<times> session + session" where
  "process_all_orders w csv_file cs =
     (case read_orders_from_csv w csv_file of (df, l) \<Rightarrow> process_frame w df cs l)"

text \<open>The state in which the order phase ends, whether it returned or raised.\<close>

definition final :: "exn \<times> session + session \<Rightarrow> session" where
  "final res = (case res of Inl (e, s) \<Rightarrow> s | Inr s \<Rightarrow> s)"

text \<open>What a row is translated to, when both constructors return an object.\<close>

definition translate :: "env \<Rightarrow> row \<Rightarrow> call option" where
  "translate w r =
     (case fst (create_contract r) of
        None \<Rightarrow> None
      | Some c \<Rightarrow> (case fst (create_order w r) of None \<Rightarrow> None | Some ord \<Rightarrow> Some (c, ord)))"

text \<open>The index labels on which the log line of an iteration does not raise.\<close>

definition label_ok :: "cell \<Rightarrow> bool" where
  "label_ok idx = (case index_plus_one idx of Inl e \<Rightarrow> False | Inr k \<Rightarrow> True)"

text \<open>The labelled rows the loop is started on: none when the frame is None or empty.\<close>

definition frame_rows :: "dataframe option \<Rightarrow> (cell \<times> row) list" where
  "frame_rows df = (case df of None \<Rightarrow> [] | Some d \<Rightarrow> if df_empty d then [] else df_rows d)"

section \<open>PositionManager\<close>

definition position_line :: "position_rec \<Rightarrow> level \<times> msg" where
  "position_line pos =
     (INFO, PositionLine (pos_symbol pos) (position pos) (avgCost pos)
              (position pos * avgCost pos)
              (position pos * (avgCost pos - avgCost pos)))"

definition fetch_positions :: "env \<Rightarrow> call list \<Rightarrow> position_rec list \<times> log" where
  "fetch_positions w cs =
     (case positions w cs of
        Inl e \<Rightarrow> ([], [(INFO, FetchingPositions), (ERROR, ErrorFetchingPositions e)])
      | Inr ps \<Rightarrow>
          if ps = [] then ([], [(INFO, FetchingPositions), (INFO, NoOpenPositions)])
          else (ps, [(INFO, FetchingPositions), (INFO, Separator 80), (INFO, PositionsHeader),
                     (INFO, Separator 80)] @ map position_line ps @ [(INFO, Separator 80)]))"

definition key_metrics :: "string list" where
  "key_metrics = [''NetLiquidation'', ''TotalCashValue'', ''BuyingPower'', ''GrossPositionValue'']"

definition fetch_account_summary :: "env \<Rightarrow> call list \<Rightarrow> account_value list option \<times> log" where
  "fetch_account_summary w cs =
     (case accountSummary w cs of
        Inl e \<Rightarrow> (None, [(INFO, FetchingAccountSummary), (ERROR, ErrorFetchingAccountSummary e)])
      | Inr summary \<Rightarrow>
          (Some summary,
           (INFO, FetchingAccountSummary) #
           (if summary \<noteq> []
            then [(INFO, Separator 60), (INFO, AccountSummaryHeader)] @
                 map (\<lambda>item. (INFO, MetricLine (tag item) (val item) (av_currency item)))
                   (filter (\<lambda>item. tag item \<in> set key_metrics) summary) @
                 [(INFO, Separator 60)]
            else [])))"

section \<open>AutoTradingSystem.run\<close>

definition shutdown :: log where
  "shutdown = [(INFO, ShuttingDown), (INFO, Disconnected), (INFO, ShutdownComplete)]"

text \<open>
  The workflow around the order phase: snapshots before, the orders, snapshots after, the
  summary; an exception that leaves the order phase is logged (the variable
  \<^verbatim>\<open>trades\<close> of \<^verbatim>\<open>run\<close> is then never assigned), and the shutdown runs in every case.
  The result is the trades, the calls the gateway received and the log.
\<close>

definition run_with :: "env \<Rightarrow> (call list \<Rightarrow> exn \<times> session + session) \<Rightarrow> session" where
  "run_with w phase =
     (let before = [(INFO, BeforeTrading)] @ snd (fetch_positions w []) @
                   snd (fetch_account_summary w []) @ [(INFO, ProcessingOrders)]
      in case phase [] of
           Inl (e, s) \<Rightarrow>
             \<lparr>trades = [], calls = calls s,
              slog = before @ slog s @ [(ERROR, ErrorDuringTrading e)] @ shutdown\<rparr>
         | Inr s \<Rightarrow>
             s\<lparr>slog := before @ slog s @
                  (if trades s \<noteq> [] then [(INFO, WaitingForOrders)] else []) @
                  [(INFO, AfterTrading)] @ snd (fetch_positions w (calls s)) @
                  snd (fetch_account_summary w (calls s)) @
                  [(INFO, Separator 80), (INFO, SessionSummaryHeader),
                   (INFO, OrdersProcessed (length (trades s))), (INFO, LogFileLine),
                   (INFO, Separator 80)] @ shutdown\<rparr>)"

text \<open>\<^verbatim>\<open>run(csv_file)\<close> of \<^verbatim>\<open>ib_auto_trader.py\<close>.\<close>

definition run :: "env \<Rightarrow> string \<Rightarrow> session" where
  "run w csv_file = run_with w (process_all_orders w csv_file)"

text \<open>\<^verbatim>\<open>run(csv_file, df)\<close> of \<^verbatim>\<open>ib_autotrade_realtest.py\<close>.\<close>

definition realtest_run :: "env \<Rightarrow> dataframe option \<Rightarrow> session" where
  "realtest_run w df = run_with w (\<lambda>cs. process_frame w df cs [])"

section \<open>Sample inputs\<close>

text \<open>Concrete rows, frames and collaborators on which the properties below are exercised.\<close>

definition aapl_row :: row where
  "aapl_row = [''Symbol'' \<mapsto> CStr ''AAPL'', ''Action'' \<mapsto> CStr ''BUY'',
               ''Quantity'' \<mapsto> CInt 100, ''OrderType'' \<mapsto> CStr ''MKT'']"

definition msft_row :: row where
  "msft_row = [''Symbol'' \<mapsto> CStr ''MSFT'', ''Action'' \<mapsto> CStr ''SELL'',
               ''Quantity'' \<mapsto> CInt 2000, ''OrderType'' \<mapsto> CStr ''MKT'']"

definition lmt_row :: row where
  "lmt_row = [''Symbol'' \<mapsto> CStr ''SPY'', ''Action'' \<mapsto> CStr ''buy'',
              ''Quantity'' \<mapsto> CInt 1000, ''OrderType'' \<mapsto> CStr ''lmt'',
              ''LmtPrice'' \<mapsto> CNaN]"

definition batch_frame :: dataframe where
  "batch_frame =
     \<lparr>df_columns = [''Symbol'', ''Action'', ''Quantity'', ''OrderType''],
      df_rows = [(CInt 0, aapl_row), (CInt 1, msft_row)]\<rparr>"


text \<open>A frame without the OrderType column, one quantity not a number, one negative.\<close>

definition abc_row :: row where
  "abc_row = [''Symbol'' \<mapsto> CStr ''AAPL'', ''Action'' \<mapsto> CStr ''BUY'', ''Quantity'' \<mapsto> CStr ''abc'']"

definition neg_row :: row where
  "neg_row = [''Symbol'' \<mapsto> CStr ''MSFT'', ''Action'' \<mapsto> CStr ''SELL'', ''Quantity'' \<mapsto> CStr ''-5'']"

definition bad_frame :: dataframe where
  "bad_frame =
     \<lparr>df_columns = [''Symbol'', ''Action'', ''Quantity''],
      df_rows = [(CInt 0, abc_row), (CInt 1, neg_row)]\<rparr>"

text \<open>A frame with a limit-price column, empty in both rows.\<close>

definition aapl_row5 :: row where
  "aapl_row5 = [''Symbol'' \<mapsto> CStr ''AAPL'', ''Action'' \<mapsto> CStr ''BUY'',
                ''Quantity'' \<mapsto> CInt 100, ''OrderType'' \<mapsto> CStr ''MKT'',
                ''LmtPrice'' \<mapsto> CNaN]"

definition two_frame :: dataframe where
  "two_frame =
     \<lparr>df_columns = [''Symbol'', ''Action'', ''Quantity'', ''OrderType'', ''LmtPrice''],
      df_rows = [(CInt 0, aapl_row5), (CInt 1, lmt_row)]\<rparr>"

text \<open>
  The frame read from a file whose header names four columns and whose only data row has
  five fields, \<^verbatim>\<open>r1,AAPL,BUY,100,MKT\<close>: the first field is the row's label.
\<close>

definition indexed_frame :: dataframe where
  "indexed_frame =
     \<lparr>df_columns = [''Symbol'', ''Action'', ''Quantity'', ''OrderType''],
      df_rows = [(CStr ''r1'', aapl_row)]\<rparr>"

text \<open>What \<open>aapl_row\<close> (and \<open>aapl_row5\<close>), \<open>lmt_row\<close> and \<open>neg_row\<close> are translated to.\<close>

definition aapl_call :: call where
  "aapl_call =
     (\<lparr>symbol = CStr ''AAPL'', exchange = ''SMART'', currency = CStr ''USD''\<rparr>,
      \<lparr>action = ''BUY'', totalQuantity = 100, orderType = ''MKT'', lmtPrice = None,
       auxPrice = None, tif = CStr ''DAY'', account = None\<rparr>)"

definition lmt_call :: call where
  "lmt_call =
     (\<lparr>symbol = CStr ''SPY'', exchange = ''SMART'', currency = CStr ''USD''\<rparr>,
      \<lparr>action = ''BUY'', totalQuantity = 1000, orderType = ''LMT'', lmtPrice = None,
       auxPrice = None, tif = CStr ''DAY'', account = None\<rparr>)"


definition accepted :: "call list \<Rightarrow> call \<Rightarrow> trade" where
  "accepted cs c =
     \<lparr>trade_contract = fst c, trade_order = snd c, orderId = int (length cs) + 1,
      status = ''Submitted''\<rparr>"

text \<open>
  The conversions of the sample environment: upper-casing of the letters a to z, which is
  what \<^verbatim>\<open>str.upper\<close> does to a string of ASCII characters, and \<^verbatim>\<open>int\<close> on the two
  strings the sample frames hold (\<^verbatim>\<open>int('-5')\<close> is -5, \<^verbatim>\<open>int('abc')\<close> raises ValueError).
\<close>

definition upper_char :: "char \<Rightarrow> char" where
  "upper_char c = (let n = (of_char c :: nat) in if 97 \<le> n \<and> n \<le> 122 then char_of (n - 32) else c)"

definition ascii_upper :: "string \<Rightarrow> string" where
  "ascii_upper s = map upper_char s"

definition sample_int :: "string \<Rightarrow> int option" where
  "sample_int s = (if s = ''-5'' then Some (- 5) else None)"

text \<open>A gateway that accepts every order, and one that raises on every placement.\<close>

definition sample_env :: env where
  "sample_env =
     \<lparr>upper_str = ascii_upper,
      int_str = sample_int,
      float_str = (\<lambda>s. None),
      read_csv = (\<lambda>p. if p = ''orders.csv'' then Inr batch_frame
                       else if p = ''bad.csv'' then Inr bad_frame
                       else if p = ''two.csv'' then Inr two_frame
                       else if p = ''indexed.csv'' then Inr indexed_frame
                       else if p = ''locked.csv'' then Inl (OtherError ''Permission denied'')
                       else Inl FileNotFoundError),
      placeOrder = (\<lambda>cs c. Inr (accepted cs c)),
      positions = (\<lambda>cs. Inr [\<lparr>pos_symbol = ''SPY'', position = 10, avgCost = 400\<rparr>]),
      accountSummary = (\<lambda>cs. Inr [])\<rparr>"

definition failing_env :: env where
  "failing_env = sample_env\<lparr>placeOrder := (\<lambda>cs c. Inl (OtherError ''not connected''))\<rparr>"

section \<open>Auxiliary facts\<close>

lemma and_then_simps [simp]:
  "and_then (Inl e) f = Inl e"
  "and_then (Inr x) f = f x"
  by (simp_all add: and_then_def)

lemma and_then_eq_Inr: "and_then m f = Inr y \<longleftrightarrow> (\<exists>x. m = Inr x \<and> f x = Inr y)"
  by (cases m) simp_all

lemma char_eq_char_of: "c = char_of (n::nat) \<longleftrightarrow> take_bit 8 n = of_char c"
  using char_of_eq_iff [of n c] by (metis (no_types))

lemmas char_eval = upper_char_def lower_char_def ascii_upper_def str_lower_def
  char_of_eq_iff char_eq_char_of

lemma cell_upper_Inr: "cell_upper up c = Inr s \<longleftrightarrow> (\<exists>a. c = CStr a \<and> s = up a)"
  by (cases c) (auto simp: cell_upper_def)

lemma getitem_Inr: "getitem r k = Inr v \<longleftrightarrow> r k = Some v"
  by (cases "r k") (simp_all add: getitem_def)

lemma build_order_Inr:
  assumes "build_order w r act quantity order_type = Inr ord"
  shows "action ord = act \<and> totalQuantity ord = quantity \<and> orderType ord = order_type"
proof -
  from assms obtain lmt aux where
    "ord = \<lparr>action = act, totalQuantity = quantity, orderType = order_type,
            lmtPrice = lmt, auxPrice = aux,
            tif = row_get r ''TimeInForce'' (CStr ''DAY''),
            account = (if notna (r ''Account'') then r ''Account'' else None)\<rparr>"
    unfolding build_order_def and_then_eq_Inr by blast
  then show ?thesis by simp
qed

lemma create_order_body_Inr:
  assumes "create_order_body w r = Inr res"
  shows "\<exists>a q n t. r ''Action'' = Some (CStr a) \<and> r ''Quantity'' = Some q \<and>
           py_int (int_str w) q = Inr n \<and>
           cell_upper (upper_str w) (row_get r ''OrderType'' (CStr ''MKT'')) = Inr t \<and>
           (if n > MAX_ORDER_SIZE
            then res = (None, [(WARNING, OrderSizeExceeds n MAX_ORDER_SIZE)])
            else \<exists>ord. build_order w r (upper_str w a) n t = Inr ord \<and> res = (Some ord, []))"
proof -
  from assms obtain ac act q n t where
    1: "r ''Action'' = Some ac" "cell_upper (upper_str w) ac = Inr act" "r ''Quantity'' = Some q"
       "py_int (int_str w) q = Inr n"
       "cell_upper (upper_str w) (row_get r ''OrderType'' (CStr ''MKT'')) = Inr t"
    and 2: "(if n > MAX_ORDER_SIZE
         then Inr (None, [(WARNING, OrderSizeExceeds n MAX_ORDER_SIZE)])
         else and_then (build_order w r act n t) (\<lambda>ord. Inr (Some ord, []))) =
         (Inr res :: exn + (order option \<times> log))"
    unfolding create_order_body_def and_then_eq_Inr getitem_Inr by blast
  from 1 obtain a where a: "ac = CStr a" "act = upper_str w a"
    unfolding cell_upper_Inr by blast
  show ?thesis
  proof (cases "n > MAX_ORDER_SIZE")
    case True
    with 2 have "res = (None, [(WARNING, OrderSizeExceeds n MAX_ORDER_SIZE)])" by simp
    with True 1 a show ?thesis by auto
  next
    case False
    with 2 have "and_then (build_order w r act n t) (\<lambda>ord. Inr (Some ord, [])) =
                 (Inr res :: exn + (order option \<times> log))"
      by simp
    then obtain ord where "build_order w r act n t = Inr ord" "res = (Some ord, [])"
      by (auto simp: and_then_eq_Inr)
    with False 1 a show ?thesis by auto
  qed
qed

lemma create_order_body_eq:
  assumes "r ''Action'' = Some (CStr a)" and "r ''Quantity'' = Some q"
    and "py_int (int_str w) q = Inr n"
    and "cell_upper (upper_str w) (row_get r ''OrderType'' (CStr ''MKT'')) = Inr t"
  shows "create_order_body w r =
           (if n > MAX_ORDER_SIZE
            then Inr (None, [(WARNING, OrderSizeExceeds n MAX_ORDER_SIZE)])
            else and_then (build_order w r (upper_str w a) n t) (\<lambda>ord. Inr (Some ord, [])))"
  using assms by (simp add: create_order_body_def getitem_def cell_upper_def)



lemma create_contract_Symbol:
  assumes "fst (create_contract r) = Some c"
  shows "\<exists>v. getitem r ''Symbol'' = Inr v"
proof (cases "r ''Symbol''")
  case None
  then have "create_contract_body r = Inl (KeyError ''Symbol'')"
    by (simp add: create_contract_body_def getitem_def)
  with assms show ?thesis by (simp add: create_contract_def)
next
  case (Some v)
  then show ?thesis by (simp add: getitem_def)
qed

lemma label_ok_iff: "label_ok idx \<longleftrightarrow> (\<exists>k. index_plus_one idx = Inr k)"
  by (cases "index_plus_one idx") (simp_all add: label_ok_def)

lemma not_label_ok: "\<not> label_ok idx \<Longrightarrow> index_plus_one idx = Inl TypeError"
  by (cases idx) (simp_all add: label_ok_def index_plus_one_def)

text \<open>
  An iteration whose log line does not raise never leaves the loop with an exception; it
  hands the row's translation to the gateway when there is one, and appends the trade the
  gateway answers with.
\<close>

lemma process_row_result:
  assumes "label_ok idx"
  shows "\<exists>s'. process_row w n (idx, r) s = Inr s' \<and>
        calls s' = calls s @ (case translate w r of None \<Rightarrow> [] | Some c \<Rightarrow> [c]) \<and>
        trades s' = trades s @
          (case translate w r of
             None \<Rightarrow> []
           | Some c \<Rightarrow> (case placeOrder w (calls s) c of Inl e \<Rightarrow> [] | Inr t \<Rightarrow> [t]))"
proof -
  from assms obtain k where k: "index_plus_one idx = Inr k" by (auto simp: label_ok_iff)
  obtain co l1 where cc: "create_contract r = (co, l1)" by (cases "create_contract r")
  show ?thesis
  proof (cases co)
    case None
    with cc k show ?thesis by (simp add: process_row_def translate_def)
  next
    case (Some c)
    with cc obtain v where v: "getitem r ''Symbol'' = Inr v"
      using create_contract_Symbol [of r c] by auto
    obtain oo l2 where oo: "create_order w r = (oo, l2)" by (cases "create_order w r")
    show ?thesis
    proof (cases oo)
      case None
      with cc Some oo k show ?thesis by (simp add: process_row_def translate_def)
    next
      case (Some ord)
      show ?thesis
      proof (cases "placeOrder w (calls s) (c, ord)")
        case (Inl e)
        with cc \<open>co = Some c\<close> oo Some v k show ?thesis
          by (simp add: process_row_def translate_def place_order_def)
      next
        case (Inr t)
        with cc \<open>co = Some c\<close> oo Some v k show ?thesis
          by (simp add: process_row_def translate_def place_order_def)
      qed
    qed
  qed
qed

lemma process_row_raise:
  assumes "\<not> label_ok idx"
  shows "process_row w n (idx, r) s = Inl (TypeError, s)"
  using not_label_ok [OF assms] by (simp add: process_row_def)

text \<open>
  The loop: the gateway receives the translations of the rows that come before the first
  label on which the log line raises, in their order; the loop returns exactly when there
  is no such label.
\<close>

lemma process_rows_final:
  "calls (final (process_rows w n irs s)) =
     calls s @ List.map_filter (translate w) (map snd (takeWhile (\<lambda>ir. label_ok (fst ir)) irs))"
proof (induction irs arbitrary: s)
  case Nil
  show ?case by (simp add: List.map_filter_simps final_def)
next
  case (Cons ir irs)
  obtain idx r where ir: "ir = (idx, r)" by (cases ir)
  show ?case
  proof (cases "label_ok idx")
    case True
    then obtain s1 where s1: "process_row w n (idx, r) s = Inr s1"
      "calls s1 = calls s @ (case translate w r of None \<Rightarrow> [] | Some c \<Rightarrow> [c])"
      using process_row_result by blast
    show ?thesis using ir s1 True Cons.IH [of s1]
      by (simp add: List.map_filter_simps split: option.splits)
  next
    case False
    then show ?thesis using ir process_row_raise [OF False]
      by (simp add: List.map_filter_simps final_def)
  qed
qed

lemma process_rows_Inr:
  "(\<exists>s'. process_rows w n irs s = Inr s') \<longleftrightarrow> (\<forall>ir\<in>set irs. label_ok (fst ir))"
proof (induction irs arbitrary: s)
  case Nil
  show ?case by simp
next
  case (Cons ir irs)
  obtain idx r where ir: "ir = (idx, r)" by (cases ir)
  show ?case
  proof (cases "label_ok idx")
    case True
    then obtain s1 where s1: "process_row w n (idx, r) s = Inr s1"
      using process_row_result by blast
    show ?thesis using ir s1 True Cons.IH [of s1] by simp
  next
    case False
    then show ?thesis using ir process_row_raise [OF False] by simp
  qed
qed

lemma process_rows_calls:
  assumes "\<forall>ir\<in>set irs. label_ok (fst ir)"
  shows "\<exists>s'. process_rows w n irs s = Inr s' \<and>
        calls s' = calls s @ List.map_filter (translate w) (map snd irs)"
proof -
  from assms obtain s' where s': "process_rows w n irs s = Inr s'"
    using process_rows_Inr [of w n irs s] by blast
  from assms have "takeWhile (\<lambda>ir. label_ok (fst ir)) irs = irs" by (simp add: takeWhile_eq_all_conv)
  with process_rows_final [of w n irs s] s' show ?thesis by (simp add: final_def)
qed

lemma optional_price_ok:
  assumes "\<forall>c. r key = Some c \<and> c \<noteq> CNaN \<longrightarrow> (\<exists>x. py_float (float_str w) c = Inr x)"
  shows "\<exists>p. optional_price w r b key = Inr p"
proof (cases "b \<and> notna (r key)")
  case False
  then show ?thesis by (auto simp: optional_price_def)
next
  case True
  then obtain c where c: "r key = Some c" "c \<noteq> CNaN"
    by (cases "r key") (auto simp: notna_def split: cell.splits)
  with assms obtain x where "py_float (float_str w) c = Inr x" by blast
  with True c show ?thesis by (simp add: optional_price_def getitem_def)
qed

lemma build_order_ok:
  assumes "\<forall>c. r ''LmtPrice'' = Some c \<and> c \<noteq> CNaN \<longrightarrow> (\<exists>x. py_float (float_str w) c = Inr x)"
    and "\<forall>c. r ''AuxPrice'' = Some c \<and> c \<noteq> CNaN \<longrightarrow> (\<exists>x. py_float (float_str w) c = Inr x)"
  shows "\<exists>ord. build_order w r act n t = Inr ord"
proof -
  from optional_price_ok [where r = r and key = "''LmtPrice''" and w = w, OF assms(1)]
  obtain lmt where l: "optional_price w r (t = ''LMT'') ''LmtPrice'' = Inr lmt" by fast
  from optional_price_ok [where r = r and key = "''AuxPrice''" and w = w, OF assms(2)]
  obtain aux where
    a: "optional_price w r (t \<in> set [''STP'', ''STP LMT'']) ''AuxPrice'' = Inr aux" by fast
  show ?thesis unfolding build_order_def l a by simp
qed

text \<open>
  C6. An instruction whose quantity is exactly \<open>MAX_ORDER_SIZE\<close> passes the size check:
  \<^verbatim>\<open>create_order\<close> logs no size warning for it, and when its action and order type are
  strings and its price cells, if any, convert to floats, the order is built with that
  quantity and returned for submission. The quantity is whatever \<^verbatim>\<open>int\<close> makes of the
  cell, the action whatever \<^verbatim>\<open>upper\<close> makes of the action cell.
\<close>

theorem boundary_accepted:
  assumes "r ''Quantity'' = Some q" and "py_int (int_str w) q = Inr MAX_ORDER_SIZE"
  shows "(\<forall>n m. (WARNING, OrderSizeExceeds n m) \<notin> set (snd (create_order w r))) \<and>
         (\<forall>a t. r ''Action'' = Some (CStr a) \<and>
                 cell_upper (upper_str w) (row_get r ''OrderType'' (CStr ''MKT'')) = Inr t \<and>
                 (\<forall>c. r ''LmtPrice'' = Some c \<and> c \<noteq> CNaN \<longrightarrow>
                      (\<exists>x. py_float (float_str w) c = Inr x)) \<and>
                 (\<forall>c. r ''AuxPrice'' = Some c \<and> c \<noteq> CNaN \<longrightarrow>
                      (\<exists>x. py_float (float_str w) c = Inr x)) \<longrightarrow>
                 (\<exists>ord. create_order w r = (Some ord, []) \<and>
                        totalQuantity ord = MAX_ORDER_SIZE \<and>
                        action ord = upper_str w a \<and> orderType ord = t))"
proof (intro conjI allI impI)
  fix n m
  show "(WARNING, OrderSizeExceeds n m) \<notin> set (snd (create_order w r))"
  proof (cases "create_order_body w r")
    case (Inl e)
    then show ?thesis by (simp add: create_order_def)
  next
    case (Inr res)
    from create_order_body_Inr [OF this] assms
    have "\<exists>ord. res = (Some ord, [])" by (auto split: if_splits)
    with Inr show ?thesis by (auto simp: create_order_def)
  qed
next
  fix a t
  assume h: "r ''Action'' = Some (CStr a) \<and>
             cell_upper (upper_str w) (row_get r ''OrderType'' (CStr ''MKT'')) = Inr t \<and>
             (\<forall>c. r ''LmtPrice'' = Some c \<and> c \<noteq> CNaN \<longrightarrow>
                  (\<exists>x. py_float (float_str w) c = Inr x)) \<and>
             (\<forall>c. r ''AuxPrice'' = Some c \<and> c \<noteq> CNaN \<longrightarrow>
                  (\<exists>x. py_float (float_str w) c = Inr x))"
  from h have h1: "r ''Action'' = Some (CStr a)"
    and h2: "cell_upper (upper_str w) (row_get r ''OrderType'' (CStr ''MKT'')) = Inr t"
    and h3: "\<forall>c. r ''LmtPrice'' = Some c \<and> c \<noteq> CNaN \<longrightarrow> (\<exists>x. py_float (float_str w) c = Inr x)"
    and h4: "\<forall>c. r ''AuxPrice'' = Some c \<and> c \<noteq> CNaN \<longrightarrow> (\<exists>x. py_float (float_str w) c = Inr x)"
    by fast+
  from build_order_ok [where r = r and w = w, OF h3 h4]
  obtain ord where ord: "build_order w r (upper_str w a) MAX_ORDER_SIZE t = Inr ord" by fast
  have "create_order_body w r = Inr (Some ord, [])"
    by (simp add: create_order_body_eq [OF h1 assms h2] ord)
  then have "create_order w r = (Some ord, [])" by (simp add: create_order_def)
  with build_order_Inr [OF ord]
  show "\<exists>ord. create_order w r = (Some ord, []) \<and> totalQuantity ord = MAX_ORDER_SIZE \<and>
              action ord = upper_str w a \<and> orderType ord = t"
    by simp
qed

theorem boundary_accepted_witness:
  "(WARNING, OrderSizeExceeds 1000 1000) \<notin> set (snd (create_order sample_env lmt_row)) \<and>
   (\<exists>ord. create_order sample_env lmt_row = (Some ord, []) \<and> totalQuantity ord = 1000 \<and>
          action ord = ''BUY'' \<and> orderType ord = ''LMT'')"
proof -
  have q: "lmt_row ''Quantity'' = Some (CInt 1000)"
    by (simp add: lmt_row_def)
  have p: "py_int (int_str sample_env) (CInt 1000) = Inr MAX_ORDER_SIZE"
    by (simp add: py_int_def MAX_ORDER_SIZE_def)
  have up: "upper_str sample_env ''buy'' = ''BUY''" "upper_str sample_env ''lmt'' = ''LMT''"
    by (simp_all add: sample_env_def char_eval)
  have h: "lmt_row ''Action'' = Some (CStr ''buy'') \<and>
           cell_upper (upper_str sample_env) (row_get lmt_row ''OrderType'' (CStr ''MKT'')) = Inr ''LMT'' \<and>
           (\<forall>c. lmt_row ''LmtPrice'' = Some c \<and> c \<noteq> CNaN \<longrightarrow>
                (\<exists>x. py_float (float_str sample_env) c = Inr x)) \<and>
           (\<forall>c. lmt_row ''AuxPrice'' = Some c \<and> c \<noteq> CNaN \<longrightarrow>
                (\<exists>x. py_float (float_str sample_env) c = Inr x))"
    by (simp add: lmt_row_def cell_upper_def row_get_def up)
  note b = boundary_accepted [of lmt_row "CInt 1000" sample_env, OF q p]
  from b have 1: "(WARNING, OrderSizeExceeds 1000 1000) \<notin> set (snd (create_order sample_env lmt_row))"
    by fast
  from b [THEN conjunct2, THEN spec, THEN spec, THEN mp, OF h]
  have "\<exists>ord. create_order sample_env lmt_row = (Some ord, []) \<and>
              totalQuantity ord = MAX_ORDER_SIZE \<and>
              action ord = upper_str sample_env ''buy'' \<and> orderType ord = ''LMT''" .
  with 1 show ?thesis by (simp add: up MAX_ORDER_SIZE_def)
qed

text \<open>
  C7. An instruction whose order type is LMT once upper-cased and whose limit price is
  missing or NaN is translated without an exception into an order whose limit price is
  unset: no price is substituted. The other fields are those of the row.
\<close>

theorem lmt_without_price:
  assumes "r ''Action'' = Some (CStr a)"
    and "r ''Quantity'' = Some q" and "py_int (int_str w) q = Inr n" and "n \<le> MAX_ORDER_SIZE"
    and "r ''OrderType'' = Some (CStr t)" and "upper_str w t = ''LMT''"
    and "\<not> notna (r ''LmtPrice'')"
  shows "create_order w r =
           (Some \<lparr>action = upper_str w a, totalQuantity = n, orderType = ''LMT'',
                  lmtPrice = None, auxPrice = None,
                  tif = row_get r ''TimeInForce'' (CStr ''DAY''),
                  account = (if notna (r ''Account'') then r ''Account'' else None)\<rparr>, [])"
proof -
  have t: "cell_upper (upper_str w) (row_get r ''OrderType'' (CStr ''MKT'')) = Inr ''LMT''"
    using assms by (simp add: row_get_def cell_upper_def)
  have b: "build_order w r (upper_str w a) n ''LMT'' =
             Inr \<lparr>action = upper_str w a, totalQuantity = n, orderType = ''LMT'',
                  lmtPrice = None, auxPrice = None,
                  tif = row_get r ''TimeInForce'' (CStr ''DAY''),
                  account = (if notna (r ''Account'') then r ''Account'' else None)\<rparr>"
    using assms by (simp add: build_order_def optional_price_def)
  show ?thesis
    using assms by (simp add: create_order_def create_order_body_eq [OF assms(1-3) t] b)
qed

theorem lmt_without_price_witness:
  "create_order sample_env lmt_row =
     (Some \<lparr>action = ''BUY'', totalQuantity = 1000, orderType = ''LMT'',
            lmtPrice = None, auxPrice = None, tif = CStr ''DAY'', account = None\<rparr>, [])"
proof -
  have up: "upper_str sample_env ''buy'' = ''BUY''" "upper_str sample_env ''lmt'' = ''LMT''"
    by (simp_all add: sample_env_def char_eval)
  show ?thesis
    using lmt_without_price [of lmt_row "''buy''" "CInt 1000" sample_env 1000 "''lmt''"]
    by (simp add: lmt_row_def py_int_def MAX_ORDER_SIZE_def notna_def row_get_def up)
qed

text \<open>
  C8. When the position query returns positions, the log shows one line for each, and the
  unrealized profit-and-loss value of the line is \<open>position * (avgCost - avgCost)\<close>,
  which is zero; the line is computed from the position's symbol, quantity and average
  cost alone, never from a market price. (Floats are modelled by their real values.)
\<close>

theorem displayed_pnl_zero:
  assumes "positions w cs = Inr ps" and "ps \<noteq> []"
  shows "snd (fetch_positions w cs) =
           [(INFO, FetchingPositions), (INFO, Separator 80), (INFO, PositionsHeader),
            (INFO, Separator 80)] @ map position_line ps @ [(INFO, Separator 80)] \<and>
         (\<forall>pos \<in> set ps.
            position_line pos =
              (INFO, PositionLine (pos_symbol pos) (position pos) (avgCost pos)
                       (position pos * avgCost pos)
                       (position pos * (avgCost pos - avgCost pos))) \<and>
            position_line pos =
              (INFO, PositionLine (pos_symbol pos) (position pos) (avgCost pos)
                       (position pos * avgCost pos) 0))"
  using assms by (simp add: fetch_positions_def position_line_def)

theorem displayed_pnl_zero_witness:
  "snd (fetch_positions sample_env []) =
     [(INFO, FetchingPositions), (INFO, Separator 80), (INFO, PositionsHeader),
      (INFO, Separator 80), (INFO, PositionLine ''SPY'' 10 400 4000 0), (INFO, Separator 80)]"
  using displayed_pnl_zero [of sample_env "[]" "[\<lparr>pos_symbol = ''SPY'', position = 10, avgCost = 400\<rparr>]"]
  by (simp add: sample_env_def)

text \<open>
  C9. With the paper-only flag set (\<open>PAPER_TRADING_ONLY\<close> is True) and the connection
  established, \<^verbatim>\<open>connect\<close> returns True in every case, and it logs the warning that this
  may not be a paper account exactly when the list of managed accounts is not empty and no
  account contains \<^verbatim>\<open>paper\<close>, \<^verbatim>\<open>df\<close> or \<^verbatim>\<open>du\<close> once lowered.
\<close>

theorem connect_paper_warning:
  "fst (connect None accounts) = True \<and>
   ((WARNING, MayNotBePaper) \<in> set (snd (connect None accounts)) \<longleftrightarrow>
      accounts \<noteq> [] \<and>
      (\<forall>acc \<in> set accounts. \<not> sublist ''paper'' (str_lower acc) \<and>
         \<not> sublist ''df'' (str_lower acc) \<and> \<not> sublist ''du'' (str_lower acc)))"
  by (auto simp: connect_def PAPER_TRADING_ONLY_def looks_paper_def list_ex_iff)

theorem connect_paper_warning_witness:
  "fst (connect None [''U1234567'']) = True \<and>
   (WARNING, MayNotBePaper) \<in> set (snd (connect None [''U1234567''])) \<and>
   (WARNING, MayNotBePaper) \<notin> set (snd (connect None [''U1234567'', ''Du7654321'']))"
  using connect_paper_warning [of "[''U1234567'']"]
        connect_paper_warning [of "[''U1234567'', ''Du7654321'']"]
  by (simp add: char_eval sublist_code prefix_code)

lemma process_rows_append:
  "process_rows w n (xs @ ys) s =
     (case process_rows w n xs s of Inl x \<Rightarrow> Inl x | Inr s' \<Rightarrow> process_rows w n ys s')"
  by (induction xs arbitrary: s) (simp_all split: sum.splits)

lemma frame_rows_Some: "df_columns d \<noteq> [] \<Longrightarrow> frame_rows (Some d) = df_rows d"
  by (auto simp: frame_rows_def df_empty_def)

text \<open>
  The order phase on a frame: the gateway receives the translations of the rows visited
  before the log line raises, and the phase returns exactly when it raises on no label.
\<close>

lemma process_frame_final:
  "calls (final (process_frame w df cs l)) =
     cs @ List.map_filter (translate w)
            (map snd (takeWhile (\<lambda>ir. label_ok (fst ir)) (frame_rows df)))"
proof (cases df)
  case None
  then show ?thesis
    by (simp add: process_frame_def frame_rows_def List.map_filter_simps final_def)
next
  case (Some d)
  show ?thesis
  proof (cases "df_empty d")
    case True
    with Some show ?thesis
      by (simp add: process_frame_def frame_rows_def List.map_filter_simps final_def)
  next
    case False
    let ?res = "process_rows w (length (df_rows d)) (df_rows d) \<lparr>trades = [], calls = cs, slog = l\<rparr>"
    have "calls (final (process_frame w df cs l)) = calls (final ?res)"
      using Some False
      by (cases ?res) (simp_all add: process_frame_def iterrows_def final_def)
    with process_rows_final [of w "length (df_rows d)" "df_rows d"
           "\<lparr>trades = [], calls = cs, slog = l\<rparr>"] Some False
    show ?thesis by (simp add: frame_rows_def)
  qed
qed

lemma process_frame_calls:
  assumes "\<forall>ir\<in>set (frame_rows df). label_ok (fst ir)"
  shows "\<exists>s. process_frame w df cs l = Inr s \<and>
       calls s = cs @ List.map_filter (translate w) (map snd (frame_rows df))"
proof (cases df)
  case None
  then show ?thesis by (simp add: process_frame_def frame_rows_def List.map_filter_simps)
next
  case (Some d)
  show ?thesis
  proof (cases "df_empty d")
    case True
    with Some show ?thesis
      by (simp add: process_frame_def frame_rows_def List.map_filter_simps)
  next
    case False
    with Some assms have ok: "\<forall>ir\<in>set (df_rows d). label_ok (fst ir)"
      by (simp add: frame_rows_def)
    obtain s where s: "process_rows w (length (df_rows d)) (df_rows d)
                         \<lparr>trades = [], calls = cs, slog = l\<rparr> = Inr s"
      "calls s = cs @ List.map_filter (translate w) (map snd (df_rows d))"
      using process_rows_calls [OF ok, of w "length (df_rows d)"
              "\<lparr>trades = [], calls = cs, slog = l\<rparr>"]
      by auto
    with Some False show ?thesis
      by (simp add: process_frame_def frame_rows_def iterrows_def)
  qed
qed

lemma run_with_calls: "calls (run_with w phase) = calls (final (phase []))"
  by (cases "phase []") (auto simp: run_with_def Let_def final_def)

lemma run_calls:
  "calls (run w f) =
     List.map_filter (translate w)
       (map snd (takeWhile (\<lambda>ir. label_ok (fst ir)) (frame_rows (fst (read_orders_from_csv w f)))))"
proof -
  obtain df l where r: "read_orders_from_csv w f = (df, l)" by (cases "read_orders_from_csv w f")
  with process_frame_final [of w df "[]" l] show ?thesis
    by (simp add: run_def run_with_calls process_all_orders_def)
qed

lemma realtest_run_calls:
  "calls (realtest_run w df) =
     List.map_filter (translate w)
       (map snd (takeWhile (\<lambda>ir. label_ok (fst ir)) (frame_rows df)))"
  using process_frame_final [of w df "[]" "[]"]
  by (simp add: realtest_run_def run_with_calls)

lemma map_filter_append:
  "List.map_filter f (xs @ ys) = List.map_filter f xs @ List.map_filter f ys"
  by (simp add: List.map_filter_def)




lemma upper_sample:
  "upper_str sample_env = ascii_upper" "upper_str failing_env = ascii_upper"
  by (simp_all add: sample_env_def failing_env_def)

lemma ascii_upper_samples:
  "ascii_upper ''BUY'' = ''BUY''" "ascii_upper ''SELL'' = ''SELL''"
  "ascii_upper ''MKT'' = ''MKT''" "ascii_upper ''buy'' = ''BUY''" "ascii_upper ''lmt'' = ''LMT''"
  by (simp_all add: char_eval)

lemma create_contract_aapl:
  "create_contract aapl_row = (Some (fst aapl_call), [])"
  by (simp add: create_contract_def create_contract_body_def getitem_def notna_def row_get_def
        aapl_row_def aapl_call_def)

lemma create_contract_lmt:
  "create_contract lmt_row = (Some (fst lmt_call), [])"
  by (simp add: create_contract_def create_contract_body_def getitem_def notna_def row_get_def
        lmt_row_def lmt_call_def)


lemma create_order_aapl:
  assumes "upper_str w ''BUY'' = ''BUY''" and "upper_str w ''MKT'' = ''MKT''"
  shows "create_order w aapl_row = (Some (snd aapl_call), [])"
proof -
  have b: "build_order w aapl_row ''BUY'' 100 ''MKT'' = Inr (snd aapl_call)"
    by (simp add: build_order_def optional_price_def aapl_row_def aapl_call_def notna_def
          row_get_def)
  have "create_order_body w aapl_row = Inr (Some (snd aapl_call), [])"
    using create_order_body_eq [of aapl_row "''BUY''" "CInt 100" w 100 "''MKT''"]
    by (simp add: aapl_row_def [THEN fun_cong] py_int_def row_get_def cell_upper_def assms b
          MAX_ORDER_SIZE_def)
  then show ?thesis by (simp add: create_order_def)
qed

lemma translate_aapl:
  assumes "upper_str w ''BUY'' = ''BUY''" and "upper_str w ''MKT'' = ''MKT''"
  shows "translate w aapl_row = Some aapl_call"
  by (simp add: translate_def create_contract_aapl create_order_aapl [OF assms])

lemma translate_aapl5:
  assumes "upper_str w ''BUY'' = ''BUY''" and "upper_str w ''MKT'' = ''MKT''"
  shows "translate w aapl_row5 = Some aapl_call"
proof -
  have c: "create_contract aapl_row5 = (Some (fst aapl_call), [])"
    by (simp add: create_contract_def create_contract_body_def getitem_def notna_def row_get_def
          aapl_row5_def aapl_call_def)
  have b: "build_order w aapl_row5 ''BUY'' 100 ''MKT'' = Inr (snd aapl_call)"
    by (simp add: build_order_def optional_price_def aapl_row5_def aapl_call_def notna_def
          row_get_def)
  have "create_order_body w aapl_row5 = Inr (Some (snd aapl_call), [])"
    using create_order_body_eq [of aapl_row5 "''BUY''" "CInt 100" w 100 "''MKT''"]
    by (simp add: aapl_row5_def [THEN fun_cong] py_int_def row_get_def cell_upper_def assms b
          MAX_ORDER_SIZE_def)
  then have "create_order w aapl_row5 = (Some (snd aapl_call), [])"
    by (simp add: create_order_def)
  with c show ?thesis by (simp add: translate_def)
qed

lemma create_order_lmt:
  assumes "upper_str w ''buy'' = ''BUY''" and "upper_str w ''lmt'' = ''LMT''"
  shows "create_order w lmt_row = (Some (snd lmt_call), [])"
proof -
  have b: "build_order w lmt_row ''BUY'' 1000 ''LMT'' = Inr (snd lmt_call)"
    by (simp add: build_order_def optional_price_def lmt_row_def lmt_call_def notna_def
          row_get_def)
  have "create_order_body w lmt_row = Inr (Some (snd lmt_call), [])"
    using create_order_body_eq [of lmt_row "''buy''" "CInt 1000" w 1000 "''LMT''"]
    by (simp add: lmt_row_def [THEN fun_cong] py_int_def row_get_def cell_upper_def assms b
          MAX_ORDER_SIZE_def)
  then show ?thesis by (simp add: create_order_def)
qed

lemma translate_lmt:
  assumes "upper_str w ''buy'' = ''BUY''" and "upper_str w ''lmt'' = ''LMT''"
  shows "translate w lmt_row = Some lmt_call"
  by (simp add: translate_def create_contract_lmt create_order_lmt [OF assms])

lemma create_order_msft:
  "create_order w msft_row = (None, [(WARNING, OrderSizeExceeds 2000 1000)])"
proof -
  have "create_order_body w msft_row = Inr (None, [(WARNING, OrderSizeExceeds 2000 1000)])"
    using create_order_body_eq [of msft_row "''SELL''" "CInt 2000" w 2000 "upper_str w ''MKT''"]
    by (simp add: msft_row_def [THEN fun_cong] py_int_def row_get_def cell_upper_def
          MAX_ORDER_SIZE_def)
  then show ?thesis by (simp add: create_order_def)
qed

lemma create_contract_msft:
  "create_contract msft_row =
     (Some \<lparr>symbol = CStr ''MSFT'', exchange = ''SMART'', currency = CStr ''USD''\<rparr>, [])"
  by (simp add: create_contract_def create_contract_body_def getitem_def notna_def row_get_def
        msft_row_def)

lemma translate_msft: "translate w msft_row = None"
  by (simp add: translate_def create_contract_msft create_order_msft)

lemma label_ok_CInt [simp]: "label_ok (CInt i)"
  by (simp add: label_ok_def index_plus_one_def)

lemma label_ok_CStr [simp]: "\<not> label_ok (CStr s)"
  by (simp add: label_ok_def index_plus_one_def)

text \<open>
  C2. Take an iteration of the loop that reaches the placement of its instruction: the
  log line did not raise on the row's label and both constructors returned an object.
  Whatever the gateway answers to the placement (an exception included, or a trade whose
  status is a rejection), the iteration returns normally, the call has been made, a trade
  is recorded only when the gateway answered with one, and the loop goes on with the next
  row. The gateway then receives the translations of the later rows in their order, up to
  the first label on which the log line raises; when there is no such label in the batch
  the order phase returns and every translatable row of the batch has been handed to the
  gateway.
\<close>

theorem failure_does_not_abort:
  assumes "label_ok idx" and "translate w r = Some c"
  shows "(\<exists>s'. process_row w n (idx, r) s = Inr s' \<and> calls s' = calls s @ [c] \<and>
              trades s' = trades s @
                (case placeOrder w (calls s) c of Inl e \<Rightarrow> [] | Inr t \<Rightarrow> [t]) \<and>
              process_rows w n ((idx, r) # post) s = process_rows w n post s') \<and>
         calls (final (process_rows w n ((idx, r) # post) s)) =
           calls s @ c # List.map_filter (translate w)
                           (map snd (takeWhile (\<lambda>ir. label_ok (fst ir)) post)) \<and>
         (\<forall>d pre cs l. df_columns d \<noteq> [] \<and> df_rows d = pre @ (idx, r) # post \<and>
              (\<forall>ir\<in>set (pre @ post). label_ok (fst ir)) \<longrightarrow>
              (\<exists>s''. process_frame w (Some d) cs l = Inr s'' \<and>
                     calls s'' = cs @ List.map_filter (translate w) (map snd pre) @ c #
                                  List.map_filter (translate w) (map snd post)))"
proof (intro conjI allI impI)
  from process_row_result [OF assms(1), of w n r s] assms(2)
  obtain s' where s': "process_row w n (idx, r) s = Inr s'" "calls s' = calls s @ [c]"
    "trades s' = trades s @ (case placeOrder w (calls s) c of Inl e \<Rightarrow> [] | Inr t \<Rightarrow> [t])"
    by auto
  then have "process_rows w n ((idx, r) # post) s = process_rows w n post s'" by simp
  with s' show "\<exists>s'. process_row w n (idx, r) s = Inr s' \<and> calls s' = calls s @ [c] \<and>
              trades s' = trades s @
                (case placeOrder w (calls s) c of Inl e \<Rightarrow> [] | Inr t \<Rightarrow> [t]) \<and>
              process_rows w n ((idx, r) # post) s = process_rows w n post s'"
    by blast
next
  show "calls (final (process_rows w n ((idx, r) # post) s)) =
           calls s @ c # List.map_filter (translate w)
                           (map snd (takeWhile (\<lambda>ir. label_ok (fst ir)) post))"
    using assms process_rows_final [of w n "(idx, r) # post" s]
    by (simp add: List.map_filter_simps del: process_rows.simps)
next
  fix d :: dataframe and pre cs l
  assume h: "df_columns d \<noteq> [] \<and> df_rows d = pre @ (idx, r) # post \<and>
             (\<forall>ir\<in>set (pre @ post). label_ok (fst ir))"
  then have fr: "frame_rows (Some d) = pre @ (idx, r) # post" by (simp add: frame_rows_Some)
  from h assms(1) have ok: "\<forall>ir\<in>set (frame_rows (Some d)). label_ok (fst ir)"
    unfolding fr by auto
  from process_frame_calls [OF ok, of w cs l] obtain s'' where
    s: "process_frame w (Some d) cs l = Inr s''"
       "calls s'' = cs @ List.map_filter (translate w) (map snd (frame_rows (Some d)))" by fast
  have "List.map_filter (translate w) (map snd (pre @ (idx, r) # post)) =
          List.map_filter (translate w) (map snd pre) @ c #
          List.map_filter (translate w) (map snd post)"
    using assms(2) by (simp add: map_filter_append List.map_filter_simps)
  with s fr show "\<exists>s''. process_frame w (Some d) cs l = Inr s'' \<and>
                     calls s'' = cs @ List.map_filter (translate w) (map snd pre) @ c #
                                  List.map_filter (translate w) (map snd post)"
    by simp
qed

theorem failure_does_not_abort_witness:
  "placeOrder failing_env [] aapl_call = Inl (OtherError ''not connected'') \<and>
   (\<exists>s'. process_row failing_env 2 (CInt 0, aapl_row5) \<lparr>trades = [], calls = [], slog = []\<rparr> = Inr s' \<and>
         calls s' = [aapl_call] \<and> trades s' = []) \<and>
   (\<exists>s. process_frame failing_env (Some two_frame) [] [] = Inr s \<and>
        calls s = [aapl_call, lmt_call])"
proof -
  have ta: "translate failing_env aapl_row5 = Some aapl_call"
    by (rule translate_aapl5) (simp_all add: upper_sample ascii_upper_samples)
  have tl: "translate failing_env lmt_row = Some lmt_call"
    by (rule translate_lmt) (simp_all add: upper_sample ascii_upper_samples)
  have f: "placeOrder failing_env [] aapl_call = Inl (OtherError ''not connected'')"
    by (simp add: failing_env_def)
  note t = failure_does_not_abort [where idx = "CInt 0" and n = 2
             and s = "\<lparr>trades = [], calls = [], slog = []\<rparr>" and post = "[(CInt 1, lmt_row)]",
             OF label_ok_CInt ta]
  have h: "df_columns two_frame \<noteq> [] \<and>
           df_rows two_frame = [] @ (CInt 0, aapl_row5) # [(CInt 1, lmt_row)] \<and>
           (\<forall>ir\<in>set ([] @ [(CInt 1, lmt_row)]). label_ok (fst ir))"
    by (simp add: two_frame_def)
  from t [THEN conjunct1] f
  have 1: "\<exists>s'. process_row failing_env 2 (CInt 0, aapl_row5) \<lparr>trades = [], calls = [], slog = []\<rparr> = Inr s' \<and>
         calls s' = [aapl_call] \<and> trades s' = []"
    by auto
  from t [THEN conjunct2, THEN conjunct2, THEN spec, THEN spec, THEN spec, THEN spec,
          THEN mp, OF h, of "[]" "[]"]
  have 2: "\<exists>s. process_frame failing_env (Some two_frame) [] [] = Inr s \<and>
        calls s = [aapl_call, lmt_call]"
    by (simp add: List.map_filter_simps tl)
  from f 1 2 show ?thesis by blast
qed

lemma getitem_Symbol_samples:
  "getitem aapl_row ''Symbol'' = Inr (CStr ''AAPL'')"
  "getitem msft_row ''Symbol'' = Inr (CStr ''MSFT'')"
  "getitem neg_row ''Symbol'' = Inr (CStr ''MSFT'')"
  by (simp_all add: getitem_def aapl_row_def msft_row_def neg_row_def)




lemma sample_conversions:
  "upper_str sample_env ''BUY'' = ''BUY''" "upper_str sample_env ''SELL'' = ''SELL''"
  "upper_str sample_env ''MKT'' = ''MKT''"
  "int_str sample_env ''abc'' = None" "int_str sample_env ''-5'' = Some (- 5)"
  by (simp_all add: upper_sample ascii_upper_samples) (simp_all add: sample_env_def sample_int_def)

lemma read_sample:
  "read_csv sample_env ''orders.csv'' = Inr batch_frame"
  "read_csv sample_env ''bad.csv'' = Inr bad_frame"
  "read_csv sample_env ''indexed.csv'' = Inr indexed_frame"
  "read_csv sample_env ''missing.csv'' = Inl FileNotFoundError"
  by (simp_all add: sample_env_def)

text \<open>
  C10. On the readable source \<^verbatim>\<open>indexed.csv\<close> both constructors return an object for the
  only row, and yet \<^verbatim>\<open>process_all_orders\<close> returns no list of trades: it raises TypeError
  from the log line \<^verbatim>\<open>idx + 1\<close> of the first iteration, after the three log lines of the
  read, with no call made.
\<close>

theorem indexed_source_raises:
  "read_orders_from_csv sample_env ''indexed.csv'' =
     (Some indexed_frame,
      [(INFO, ReadingOrders ''indexed.csv''), (INFO, FoundOrders 1),
       (INFO, Columns [''Symbol'', ''Action'', ''Quantity'', ''OrderType''])]) \<and>
   create_contract aapl_row = (Some (fst aapl_call), []) \<and>
   create_order sample_env aapl_row = (Some (snd aapl_call), []) \<and>
   process_all_orders sample_env ''indexed.csv'' [] =
     Inl (TypeError,
          \<lparr>trades = [], calls = [],
           slog = [(INFO, ReadingOrders ''indexed.csv''), (INFO, FoundOrders 1),
                   (INFO, Columns [''Symbol'', ''Action'', ''Quantity'', ''OrderType''])]\<rparr>)"
proof -
  have r: "read_orders_from_csv sample_env ''indexed.csv'' =
     (Some indexed_frame,
      [(INFO, ReadingOrders ''indexed.csv''), (INFO, FoundOrders 1),
       (INFO, Columns [''Symbol'', ''Action'', ''Quantity'', ''OrderType''])])"
    by (simp add: read_orders_from_csv_def read_sample indexed_frame_def)
  have o: "create_order sample_env aapl_row = (Some (snd aapl_call), [])"
    by (rule create_order_aapl) (simp_all add: sample_conversions)
  have p: "process_all_orders sample_env ''indexed.csv'' [] =
     Inl (TypeError,
          \<lparr>trades = [], calls = [],
           slog = [(INFO, ReadingOrders ''indexed.csv''), (INFO, FoundOrders 1),
                   (INFO, Columns [''Symbol'', ''Action'', ''Quantity'', ''OrderType''])]\<rparr>)"
    unfolding process_all_orders_def r
    by (simp add: process_frame_def df_empty_def iterrows_def indexed_frame_def
          process_row_def index_plus_one_def)
  from r o p create_contract_aapl show ?thesis by simp
qed

text \<open>
  C3. The source \<^verbatim>\<open>indexed.csv\<close> holds one row, labelled \<^verbatim>\<open>r1\<close>, whose instruction passes
  both constructors (it translates to the call \<open>aapl_call\<close>). Both programs hand nothing to
  the gateway: the log line of the first iteration computes \<^verbatim>\<open>idx + 1\<close> on the label,
  outside every \<^verbatim>\<open>try\<close> block, and the TypeError leaves the loop. So the sequence of
  calls is not the sequence of the instructions that pass validation.
\<close>

theorem indexed_source_places_nothing:
  "fst (read_orders_from_csv sample_env ''indexed.csv'') = Some indexed_frame \<and>
   df_rows indexed_frame = [(CStr ''r1'', aapl_row)] \<and>
   translate sample_env aapl_row = Some aapl_call \<and>
   calls (run sample_env ''indexed.csv'') = [] \<and>
   calls (realtest_run sample_env (Some indexed_frame)) = []"
proof -
  have r: "fst (read_orders_from_csv sample_env ''indexed.csv'') = Some indexed_frame"
    by (simp add: read_orders_from_csv_def read_sample)
  have t: "translate sample_env aapl_row = Some aapl_call"
    by (rule translate_aapl) (simp_all add: sample_conversions)
  have f: "frame_rows (Some indexed_frame) = [(CStr ''r1'', aapl_row)]"
    by (simp add: frame_rows_def df_empty_def indexed_frame_def)
  have 1: "calls (run sample_env ''indexed.csv'') = []"
    by (simp add: run_calls r f List.map_filter_simps)
  have 2: "calls (realtest_run sample_env (Some indexed_frame)) = []"
    by (simp add: realtest_run_calls f List.map_filter_simps)
  from r t 1 2 show ?thesis by (simp add: indexed_frame_def)
qed










lemma read_ok:
  assumes "read_csv w f = Inr df"
  shows "read_orders_from_csv w f =
           (Some df, [(INFO, ReadingOrders f), (INFO, FoundOrders (length (df_rows df))),
                      (INFO, Columns (df_columns df))])"
  using assms by (simp add: read_orders_from_csv_def)







lemma place_sample: "placeOrder sample_env cs c = Inr (accepted cs c)"
  by (simp add: sample_env_def)




lemma process_batch:
  assumes "upper_str w ''BUY'' = ''BUY''" and "upper_str w ''MKT'' = ''MKT''"
    and "placeOrder w cs aapl_call = Inr t"
  shows "process_frame w (Some batch_frame) cs l =
     Inr \<lparr>trades = [t], calls = cs @ [aapl_call],
          slog = l @
            [(INFO, ProcessingOrder (CInt 1) 2), (INFO, Separator 60),
             (INFO, PlacingOrder ''BUY''), (INFO, SymbolLine (CStr ''AAPL'')),
             (INFO, QuantityLine 100), (INFO, OrderTypeLine ''MKT''), (INFO, Separator 60),
             (INFO, OrderPlaced (orderId t)), (INFO, StatusLine (status t)),
             (INFO, ProcessingOrder (CInt 2) 2), (WARNING, OrderSizeExceeds 2000 1000),
             (INFO, Completed 1 2)]\<rparr>"
proof -
  have fields: "action (snd aapl_call) = ''BUY''" "totalQuantity (snd aapl_call) = 100"
    "orderType (snd aapl_call) = ''MKT''"
    by (simp_all add: aapl_call_def)
  have p: "placeOrder w cs (fst aapl_call, snd aapl_call) = Inr t" using assms(3) by simp
  show ?thesis
    by (simp add: process_frame_def df_empty_def iterrows_def batch_frame_def process_row_def
          index_plus_one_def create_contract_aapl create_order_aapl [OF assms(1,2)]
          create_contract_msft create_order_msft getitem_Symbol_samples place_order_def
          fields p assms(3))
qed

lemma run_batch:
  assumes "read_csv w f = Inr batch_frame"
    and "upper_str w ''BUY'' = ''BUY''" and "upper_str w ''MKT'' = ''MKT''"
    and "placeOrder w [] aapl_call = Inr t"
  shows "run w f =
     \<lparr>trades = [t], calls = [aapl_call],
      slog = [(INFO, BeforeTrading)] @ snd (fetch_positions w []) @
             snd (fetch_account_summary w []) @
             [(INFO, ProcessingOrders), (INFO, ReadingOrders f), (INFO, FoundOrders 2),
              (INFO, Columns [''Symbol'', ''Action'', ''Quantity'', ''OrderType'']),
              (INFO, ProcessingOrder (CInt 1) 2), (INFO, Separator 60),
              (INFO, PlacingOrder ''BUY''), (INFO, SymbolLine (CStr ''AAPL'')),
              (INFO, QuantityLine 100), (INFO, OrderTypeLine ''MKT''), (INFO, Separator 60),
              (INFO, OrderPlaced (orderId t)), (INFO, StatusLine (status t)),
              (INFO, ProcessingOrder (CInt 2) 2), (WARNING, OrderSizeExceeds 2000 1000),
              (INFO, Completed 1 2), (INFO, WaitingForOrders), (INFO, AfterTrading)] @
             snd (fetch_positions w [aapl_call]) @ snd (fetch_account_summary w [aapl_call]) @
             [(INFO, Separator 80), (INFO, SessionSummaryHeader), (INFO, OrdersProcessed 1),
              (INFO, LogFileLine), (INFO, Separator 80)] @ shutdown\<rparr>"
proof -
  have r: "read_orders_from_csv w f =
     (Some batch_frame,
      [(INFO, ReadingOrders f), (INFO, FoundOrders 2),
       (INFO, Columns [''Symbol'', ''Action'', ''Quantity'', ''OrderType''])])"
    using read_ok [OF assms(1)] by (simp add: batch_frame_def)
  have p: "process_all_orders w f [] =
     Inr \<lparr>trades = [t], calls = [aapl_call],
          slog = [(INFO, ReadingOrders f), (INFO, FoundOrders 2),
                  (INFO, Columns [''Symbol'', ''Action'', ''Quantity'', ''OrderType''])] @
            [(INFO, ProcessingOrder (CInt 1) 2), (INFO, Separator 60),
             (INFO, PlacingOrder ''BUY''), (INFO, SymbolLine (CStr ''AAPL'')),
             (INFO, QuantityLine 100), (INFO, OrderTypeLine ''MKT''), (INFO, Separator 60),
             (INFO, OrderPlaced (orderId t)), (INFO, StatusLine (status t)),
             (INFO, ProcessingOrder (CInt 2) 2), (WARNING, OrderSizeExceeds 2000 1000),
             (INFO, Completed 1 2)]\<rparr>"
    unfolding process_all_orders_def r
    using process_batch [OF assms(2,3,4), of "[(INFO, ReadingOrders f), (INFO, FoundOrders 2),
                  (INFO, Columns [''Symbol'', ''Action'', ''Quantity'', ''OrderType''])]"]
    by simp
  show ?thesis by (simp add: run_def run_with_def Let_def p)
qed

lemma snapshots_sample:
  "snd (fetch_positions sample_env cs) =
     [(INFO, FetchingPositions), (INFO, Separator 80), (INFO, PositionsHeader),
      (INFO, Separator 80), (INFO, PositionLine ''SPY'' 10 400 4000 0), (INFO, Separator 80)]"
  "snd (fetch_account_summary sample_env cs) = [(INFO, FetchingAccountSummary)]"
  by (simp_all add: fetch_positions_def position_line_def fetch_account_summary_def
        sample_env_def)

text \<open>
  C5, counterexample. The session on \<^verbatim>\<open>orders.csv\<close>, which holds BUY 100 AAPL MKT and SELL 2000 MSFT
  MKT, with a gateway that accepts every order: only the AAPL order is handed to the
  gateway, and the summary at the end of the log reports one number, the count of trades
  (\<^verbatim>\<open>Orders processed: 1\<close>); it reports no count of attempted orders and no count of orders
  rejected by the size check.
\<close>

theorem summary_one_count:
  "run sample_env ''orders.csv'' =
     \<lparr>trades = [accepted [] aapl_call], calls = [aapl_call],
      slog =
        [(INFO, BeforeTrading), (INFO, FetchingPositions), (INFO, Separator 80),
         (INFO, PositionsHeader), (INFO, Separator 80),
         (INFO, PositionLine ''SPY'' 10 400 4000 0), (INFO, Separator 80),
         (INFO, FetchingAccountSummary), (INFO, ProcessingOrders),
         (INFO, ReadingOrders ''orders.csv''), (INFO, FoundOrders 2),
         (INFO, Columns [''Symbol'', ''Action'', ''Quantity'', ''OrderType'']),
         (INFO, ProcessingOrder (CInt 1) 2), (INFO, Separator 60),
         (INFO, PlacingOrder ''BUY''), (INFO, SymbolLine (CStr ''AAPL'')),
         (INFO, QuantityLine 100), (INFO, OrderTypeLine ''MKT''), (INFO, Separator 60),
         (INFO, OrderPlaced 1), (INFO, StatusLine ''Submitted''),
         (INFO, ProcessingOrder (CInt 2) 2), (WARNING, OrderSizeExceeds 2000 1000),
         (INFO, Completed 1 2), (INFO, WaitingForOrders), (INFO, AfterTrading),
         (INFO, FetchingPositions), (INFO, Separator 80), (INFO, PositionsHeader),
         (INFO, Separator 80), (INFO, PositionLine ''SPY'' 10 400 4000 0),
         (INFO, Separator 80), (INFO, FetchingAccountSummary), (INFO, Separator 80),
         (INFO, SessionSummaryHeader), (INFO, OrdersProcessed 1), (INFO, LogFileLine),
         (INFO, Separator 80), (INFO, ShuttingDown), (INFO, Disconnected),
         (INFO, ShutdownComplete)]\<rparr>"
  using run_batch [of sample_env "''orders.csv''" "accepted [] aapl_call"]
  by (simp add: read_sample sample_conversions place_sample snapshots_sample shutdown_def
        accepted_def)

text \<open>
  C5. For the batch BUY 100 AAPL MKT, SELL 2000 MSFT MKT, when the gateway answers the AAPL
  placement with a trade: only the AAPL order reaches the gateway, the list of trades
  holds that one trade, the loop logs the size warning for the MSFT order and ends with
  the line that 1 of 2 orders were processed, and the session summary reports the single
  count \<^verbatim>\<open>Orders processed: 1\<close>. (\<^verbatim>\<open>upper\<close> leaves \<^verbatim>\<open>BUY\<close> and \<^verbatim>\<open>MKT\<close> as they are.)
\<close>

theorem summary_counts:
  assumes "read_csv w f = Inr batch_frame"
    and "upper_str w ''BUY'' = ''BUY''" and "upper_str w ''MKT'' = ''MKT''"
    and "placeOrder w [] aapl_call = Inr t"
  shows "trades (run w f) = [t] \<and> calls (run w f) = [aapl_call] \<and>
     slog (run w f) =
       [(INFO, BeforeTrading)] @ snd (fetch_positions w []) @
       snd (fetch_account_summary w []) @
       [(INFO, ProcessingOrders), (INFO, ReadingOrders f), (INFO, FoundOrders 2),
        (INFO, Columns [''Symbol'', ''Action'', ''Quantity'', ''OrderType'']),
        (INFO, ProcessingOrder (CInt 1) 2), (INFO, Separator 60),
        (INFO, PlacingOrder ''BUY''), (INFO, SymbolLine (CStr ''AAPL'')),
        (INFO, QuantityLine 100), (INFO, OrderTypeLine ''MKT''), (INFO, Separator 60),
        (INFO, OrderPlaced (orderId t)), (INFO, StatusLine (status t)),
        (INFO, ProcessingOrder (CInt 2) 2), (WARNING, OrderSizeExceeds 2000 1000),
        (INFO, Completed 1 2), (INFO, WaitingForOrders), (INFO, AfterTrading)] @
       snd (fetch_positions w [aapl_call]) @ snd (fetch_account_summary w [aapl_call]) @
       [(INFO, Separator 80), (INFO, SessionSummaryHeader), (INFO, OrdersProcessed 1),
        (INFO, LogFileLine), (INFO, Separator 80)] @ shutdown"
  unfolding run_batch [OF assms] by simp

theorem summary_counts_witness:
  "trades (run sample_env ''orders.csv'') = [accepted [] aapl_call] \<and>
   calls (run sample_env ''orders.csv'') = [aapl_call] \<and>
   drop 33 (slog (run sample_env ''orders.csv'')) =
     [(INFO, Separator 80), (INFO, SessionSummaryHeader), (INFO, OrdersProcessed 1),
      (INFO, LogFileLine), (INFO, Separator 80), (INFO, ShuttingDown), (INFO, Disconnected),
      (INFO, ShutdownComplete)]"
  using summary_counts [of sample_env "''orders.csv''" "accepted [] aapl_call"]
  by (simp add: read_sample sample_conversions place_sample snapshots_sample shutdown_def
        accepted_def)

end
